theory Spec2Isabelle
  imports Complex_Main "HOL-Library.Multiset"
begin

section \<open>Numbers\<close>

text \<open>
  The program computes with IEEE doubles (Python \<open>float\<close>, numpy \<open>float64\<close>). A finite
  double is idealised as an exact real number: the rounding error of an operation,
  overflow and the sign of zero are outside this development, so a value computed here
  can differ from the program's in its last digits. The two infinities and NaN are kept,
  because the code's control flow depends on them (numpy divides by zero without raising,
  pandas marks a missing value with NaN, and every comparison with NaN is false). The
  properties below are about which rows exist, their order, the sign of a change and the
  error raised by a zero divisor; the sample inputs that are evaluated to a number use
  whole numbers and halves, which binary arithmetic computes exactly.
\<close>

datatype pyfloat = Fin real | PInf | NInf | NaN

datatype py_error = ZeroDivisionError

fun flt :: "pyfloat \<Rightarrow> pyfloat \<Rightarrow> bool" where
  "flt NaN _ = False"
| "flt _ NaN = False"
| "flt (Fin a) (Fin b) = (a < b)"
| "flt (Fin a) PInf = True"
| "flt NInf (Fin b) = True"
| "flt NInf PInf = True"
| "flt _ _ = False"

definition fgt :: "pyfloat \<Rightarrow> pyfloat \<Rightarrow> bool" where
  "fgt a b = flt b a"

fun fle :: "pyfloat \<Rightarrow> pyfloat \<Rightarrow> bool" where
  "fle NaN _ = False"
| "fle _ NaN = False"
| "fle a b = (\<not> flt b a)"

fun fneg :: "pyfloat \<Rightarrow> pyfloat" where
  "fneg (Fin a) = Fin (- a)"
| "fneg PInf = NInf"
| "fneg NInf = PInf"
| "fneg NaN = NaN"

fun fadd :: "pyfloat \<Rightarrow> pyfloat \<Rightarrow> pyfloat" where
  "fadd NaN _ = NaN"
| "fadd _ NaN = NaN"
| "fadd (Fin a) (Fin b) = Fin (a + b)"
| "fadd PInf NInf = NaN"
| "fadd NInf PInf = NaN"
| "fadd PInf _ = PInf"
| "fadd NInf _ = NInf"
| "fadd (Fin a) b = b"

definition fsub :: "pyfloat \<Rightarrow> pyfloat \<Rightarrow> pyfloat" where
  "fsub a b = fadd a (fneg b)"

text \<open>The sign of a value that is not NaN, and an infinity or NaN of a given sign.\<close>

fun fsign :: "pyfloat \<Rightarrow> int" where
  "fsign (Fin a) = (if a < 0 then - 1 else if a > 0 then 1 else 0)"
| "fsign PInf = 1"
| "fsign NInf = - 1"
| "fsign NaN = 0"

definition signed_inf :: "int \<Rightarrow> pyfloat" where
  "signed_inf s = (if s < 0 then NInf else if s > 0 then PInf else NaN)"

fun fmul :: "pyfloat \<Rightarrow> pyfloat \<Rightarrow> pyfloat" where
  "fmul NaN _ = NaN"
| "fmul _ NaN = NaN"
| "fmul (Fin a) (Fin b) = Fin (a * b)"
| "fmul a b = signed_inf (fsign a * fsign b)"

text \<open>
  IEEE division, as numpy performs it on a column: a zero divisor gives an infinity of
  the dividend's sign, and \<open>0 / 0\<close> gives NaN.
\<close>

fun fdiv :: "pyfloat \<Rightarrow> pyfloat \<Rightarrow> pyfloat" where
  "fdiv NaN _ = NaN"
| "fdiv _ NaN = NaN"
| "fdiv (Fin a) (Fin b) = (if b = 0 then signed_inf (fsign (Fin a)) else Fin (a / b))"
| "fdiv (Fin a) _ = Fin 0"
| "fdiv a (Fin b) = signed_inf (fsign a * (if b < 0 then - 1 else 1))"
| "fdiv _ _ = NaN"

text \<open>Division of two Python scalars: a zero divisor raises.\<close>

definition py_div :: "pyfloat \<Rightarrow> pyfloat \<Rightarrow> py_error + pyfloat" where
  "py_div a b = (if b = Fin 0 then Inl ZeroDivisionError else Inr (fdiv a b))"

text \<open>\<open>round(x, 2)\<close>: to the nearest multiple of 1/100, a tie going to the even one.\<close>

definition round_half_even :: "real \<Rightarrow> int" where
  "round_half_even x =
     (let f = \<lfloor>x\<rfloor>; d = x - of_int f
      in if d < 1 / 2 then f else if d > 1 / 2 then f + 1
         else if even f then f else f + 1)"

definition round2 :: "real \<Rightarrow> real" where
  "round2 x = of_int (round_half_even (x * 100)) / 100"

fun py_round2 :: "pyfloat \<Rightarrow> pyfloat" where
  "py_round2 (Fin x) = Fin (round2 x)"
| "py_round2 v = v"

section \<open>Price frames\<close>

text \<open>
  A calendar day of the frame's index, with the two renderings the endpoints use
  (\<open>strftime("%Y-%m-%d")\<close> and \<open>strftime("%d-%b")\<close>).
\<close>

record date =
  year :: nat
  month :: nat
  day :: nat

definition digit :: "nat \<Rightarrow> char" where
  "digit n = ''0123456789'' ! (n mod 10)"

definition pad2 :: "nat \<Rightarrow> string" where
  "pad2 n = [digit (n div 10), digit n]"

definition pad4 :: "nat \<Rightarrow> string" where
  "pad4 n = [digit (n div 1000), digit (n div 100), digit (n div 10), digit n]"

definition month_abbr :: "nat \<Rightarrow> string" where
  "month_abbr m =
     [''Jan'', ''Feb'', ''Mar'', ''Apr'', ''May'', ''Jun'',
      ''Jul'', ''Aug'', ''Sep'', ''Oct'', ''Nov'', ''Dec''] ! ((m - 1) mod 12)"

definition strftime_Ymd :: "date \<Rightarrow> string" where
  "strftime_Ymd d = pad4 (year d) @ ''-'' @ pad2 (month d) @ ''-'' @ pad2 (day d)"

definition strftime_db :: "date \<Rightarrow> string" where
  "strftime_db d = pad2 (day d) @ ''-'' @ month_abbr (month d)"

text \<open>
  The data frame \<open>yf.download\<close> returns, reduced to what the program reads: whether
  it has a column labelled \<open>Close\<close> (after the flattening of a column MultiIndex in
  \<open>get_stock_data\<close>), and the rows in index order, each with its date and its closing
  price. Closing prices are finite numbers; the frame has no missing values.
\<close>

record frame =
  has_close :: bool
  rows :: "(date \<times> real) list"

definition empty_frame :: frame where
  "empty_frame = \<lparr>has_close = False, rows = []\<rparr>"

definition df_empty :: "frame \<Rightarrow> bool" where
  "df_empty df = (rows df = [])"

definition closes :: "frame \<Rightarrow> real list" where
  "closes df = map snd (rows df)"

definition index :: "frame \<Rightarrow> date list" where
  "index df = map fst (rows df)"

text \<open>The market-data pull is the program's environment: it raises or returns a frame.\<close>

datatype download = Raises | Returns frame

definition NIFTY_100 :: "string list" where
  "NIFTY_100 =
     [''RELIANCE.NS'', ''TCS.NS'', ''INFY.NS'', ''HDFCBANK.NS'', ''ICICIBANK.NS'', ''SBIN.NS'',
      ''BHARTIARTL.NS'', ''HINDUNILVR.NS'', ''ITC.NS'', ''LT.NS'']"

definition get_stock_data :: "(string \<Rightarrow> download) \<Rightarrow> string \<Rightarrow> frame" where
  "get_stock_data yf symbol =
     (case yf symbol of
        Raises \<Rightarrow> empty_frame
      | Returns df \<Rightarrow> if df_empty df then empty_frame else df)"

text \<open>
  \<open>Series.pct_change(periods)\<close>: the first \<open>periods\<close> entries are missing; entry \<open>i\<close> is
  \<open>x[i] / x[i - periods] - 1\<close>.
\<close>

definition pct_change :: "nat \<Rightarrow> real list \<Rightarrow> pyfloat list" where
  "pct_change periods xs =
     map (\<lambda>i. if i < periods then NaN
              else fsub (fdiv (Fin (xs ! i)) (Fin (xs ! (i - periods)))) (Fin 1))
         [0..<length xs]"

text \<open>
  \<open>Series.rolling(window).mean()\<close>: entry \<open>i\<close> is the mean of the \<open>window\<close> entries
  ending at \<open>i\<close>, missing while fewer than \<open>window\<close> entries are there.
\<close>

definition rolling_mean :: "nat \<Rightarrow> real list \<Rightarrow> pyfloat list" where
  "rolling_mean window xs =
     map (\<lambda>i. if i + 1 < window then NaN
              else Fin (sum_list (take window (drop (i + 1 - window) xs)) / real window))
         [0..<length xs]"

definition dropna :: "pyfloat list \<Rightarrow> pyfloat list" where
  "dropna col = filter (\<lambda>v. v \<noteq> NaN) col"

definition tail :: "nat \<Rightarrow> 'a list \<Rightarrow> 'a list" where
  "tail n xs = drop (length xs - n) xs"

text \<open>A JSON response: the error object \<open>{"error": msg}\<close> or a payload, with its status.\<close>

datatype 'a json = ErrorObj string | Payload 'a

type_synonym 'a response = "'a json \<times> nat"

section \<open>Route 2: the trend detector\<close>

datatype trend = Fall | Rise

record row =
  symbol :: string
  last_close :: real
  as_of :: string

record trend_row = row +
  streak_type :: "trend option"
  days :: nat
  prices :: "real list"
  dates :: "string list"

text \<open>
  One pass of the loop body over \<open>df["Change"].iloc[i]\<close>: the new counter and trend.
\<close>

definition streak_step :: "pyfloat \<Rightarrow> nat \<times> trend option \<Rightarrow> nat \<times> trend option" where
  "streak_step change st =
     (let (streak, trend) = st
      in if flt change (Fin 0) then ((if trend = Some Fall then streak + 1 else 1), Some Fall)
         else if fgt change (Fin 0) then ((if trend = Some Rise then streak + 1 else 1), Some Rise)
         else (0, None))"

text \<open>
  The loop \<open>for i in range(1, len(df))\<close> over the changes still to visit; it leaves with
  the counter and trend at the first day the counter is 3 or more (\<open>break\<close>), and with
  \<open>None\<close> when the days run out.
\<close>

fun streak_scan :: "pyfloat list \<Rightarrow> nat \<times> trend option \<Rightarrow> (nat \<times> trend option) option" where
  "streak_scan [] st = None"
| "streak_scan (c # cs) st =
     (let st' = streak_step c st
      in if fst st' \<ge> 3 then Some st' else streak_scan cs st')"

definition auto_trends_row :: "string \<Rightarrow> frame \<Rightarrow> trend_row option" where
  "auto_trends_row s df =
     (if df_empty df \<or> \<not> has_close df then None
      else case streak_scan (drop 1 (pct_change 1 (closes df))) (0, None) of
             None \<Rightarrow> None
           | Some (streak, trend) \<Rightarrow>
               Some \<lparr>symbol = s,
                     last_close = last (closes df),
                     as_of = strftime_Ymd (last (index df)),
                     streak_type = trend,
                     days = streak,
                     prices = map round2 (tail 7 (closes df)),
                     dates = map strftime_db (tail 7 (index df))\<rparr>)"

fun auto_trends_results :: "(string \<Rightarrow> download) \<Rightarrow> string list \<Rightarrow> trend_row list" where
  "auto_trends_results yf [] = []"
| "auto_trends_results yf (s # ss) =
     (case auto_trends_row s (get_stock_data yf s) of
        None \<Rightarrow> auto_trends_results yf ss
      | Some r \<Rightarrow> r # auto_trends_results yf ss)"

definition auto_trends :: "(string \<Rightarrow> download) \<Rightarrow> (trend_row list) response" where
  "auto_trends yf =
     (let results = auto_trends_results yf NIFTY_100
      in if results = [] then (ErrorObj ''No trend data found'', 400)
         else (Payload results, 200))"

section \<open>Sorting a table by a column\<close>

text \<open>
  \<open>DataFrame.sort_values(by, ascending=False)\<close>: the rows whose key is a number, largest
  key first, then the rows whose key is NaN. The library does not fix the order of rows
  with equal keys; here they keep their order, and no claim below depends on it.
\<close>

fun insort_desc :: "('a \<Rightarrow> pyfloat) \<Rightarrow> 'a \<Rightarrow> 'a list \<Rightarrow> 'a list" where
  "insort_desc k x [] = [x]"
| "insort_desc k x (y # ys) =
     (if fle (k y) (k x) then x # y # ys else y # insort_desc k x ys)"

definition sort_values_desc :: "('a \<Rightarrow> pyfloat) \<Rightarrow> 'a list \<Rightarrow> 'a list" where
  "sort_values_desc k rs =
     foldr (insort_desc k) (filter (\<lambda>r. k r \<noteq> NaN) rs) [] @ filter (\<lambda>r. k r = NaN) rs"

section \<open>Routes 3 and 4: momentum\<close>

record momentum_row = row +
  change_pct :: pyfloat

definition momentum_row_of :: "nat \<Rightarrow> string \<Rightarrow> frame \<Rightarrow> momentum_row option" where
  "momentum_row_of periods s df =
     (if df_empty df \<or> \<not> has_close df then None
      else let col = map (\<lambda>v. fmul v (Fin 100)) (pct_change periods (closes df))
           in if dropna col = [] then None
              else let last_change = last col
                   in Some \<lparr>symbol = s,
                            last_close = last (closes df),
                            as_of = strftime_Ymd (last (index df)),
                            change_pct = py_round2 last_change\<rparr>)"

fun momentum_results ::
  "(string \<Rightarrow> download) \<Rightarrow> nat \<Rightarrow> string list \<Rightarrow> momentum_row list" where
  "momentum_results yf periods [] = []"
| "momentum_results yf periods (s # ss) =
     (case momentum_row_of periods s (get_stock_data yf s) of
        None \<Rightarrow> momentum_results yf periods ss
      | Some r \<Rightarrow> r # momentum_results yf periods ss)"

text \<open>
  The function returns the table and an error, one of them empty. \<open>pd.to_numeric\<close>
  leaves a column of floats as it is.
\<close>

definition calculate_momentum_data ::
  "(string \<Rightarrow> download) \<Rightarrow> string list \<Rightarrow> nat \<Rightarrow> momentum_row list \<times> string option" where
  "calculate_momentum_data yf symbol_list periods =
     (let results = momentum_results yf periods symbol_list
      in if results = [] then ([], Some ''No valid momentum data found'')
         else let df_results = filter (\<lambda>r. change_pct r \<noteq> NaN) results
              in if df_results = [] then ([], Some ''No numeric momentum values'')
                 else (sort_values_desc change_pct df_results, None))"

definition momentum_stocks :: "(string \<Rightarrow> download) \<Rightarrow> (momentum_row list) response" where
  "momentum_stocks yf =
     (case calculate_momentum_data yf NIFTY_100 5 of
        (df_results, Some error) \<Rightarrow> (ErrorObj error, 400)
      | (df_results, None) \<Rightarrow> (Payload df_results, 200))"

record performers =
  high :: "momentum_row list"
  low :: "momentum_row list"
  period :: string
  N :: nat

definition high_low_performers :: "(string \<Rightarrow> download) \<Rightarrow> performers response" where
  "high_low_performers yf =
     (let periods = 5
      in case calculate_momentum_data yf NIFTY_100 periods of
           (df_results, Some error) \<Rightarrow> (ErrorObj error, 400)
         | (df_results, None) \<Rightarrow>
             (let n = (if length df_results < 3 then length df_results div 2 else 3)
              in (Payload \<lparr>high = take n df_results,
                           low = tail n df_results,
                           period = ''5-Day (1 Week)'',
                           N = n\<rparr>, 200)))"

section \<open>Route 5: the 20-day moving average\<close>

record sma_row = row +
  sma_period :: nat
  last_sma :: pyfloat
  status :: string
  deviation_pct :: pyfloat

text \<open>
  The loop body for one ticker: skipped (\<open>None\<close>), a row, or the exception of the
  scalar division.
\<close>

definition sma_row_of :: "nat \<Rightarrow> string \<Rightarrow> frame \<Rightarrow> py_error + sma_row option" where
  "sma_row_of periods s df =
     (if df_empty df \<or> \<not> has_close df then Inr None
      else let sma = rolling_mean periods (closes df)
           in if dropna sma = [] then Inr None
              else let lc = last (closes df);
                       ls = last sma;
                       st = (if fgt (Fin lc) ls then ''Above SMA'' else ''Below SMA'')
                   in case py_div (fsub (Fin lc) ls) ls of
                        Inl e \<Rightarrow> Inl e
                      | Inr q \<Rightarrow>
                          Inr (Some \<lparr>symbol = s,
                                     last_close = round2 lc,
                                     as_of = strftime_Ymd (last (index df)),
                                     sma_period = periods,
                                     last_sma = py_round2 ls,
                                     status = st,
                                     deviation_pct = py_round2 (fmul q (Fin 100))\<rparr>))"

fun sma_results ::
  "(string \<Rightarrow> download) \<Rightarrow> nat \<Rightarrow> string list \<Rightarrow> py_error + sma_row list" where
  "sma_results yf periods [] = Inr []"
| "sma_results yf periods (s # ss) =
     (case sma_row_of periods s (get_stock_data yf s) of
        Inl e \<Rightarrow> Inl e
      | Inr None \<Rightarrow> sma_results yf periods ss
      | Inr (Some r) \<Rightarrow>
          (case sma_results yf periods ss of Inl e \<Rightarrow> Inl e | Inr rs \<Rightarrow> Inr (r # rs)))"

definition moving_average_stocks ::
  "(string \<Rightarrow> download) \<Rightarrow> py_error + (sma_row list) response" where
  "moving_average_stocks yf =
     (case sma_results yf 20 NIFTY_100 of
        Inl e \<Rightarrow> Inl e
      | Inr results \<Rightarrow>
          if results = [] then Inr (ErrorObj ''No valid Moving Average data found'', 400)
          else Inr (Payload (sort_values_desc deviation_pct results), 200))"

section \<open>The streak of the specification\<close>

text \<open>
  The direction of a day is the sign of its change: a fall, a rise, or neither (a flat
  day, or a change that is not a number).
\<close>

definition direction :: "pyfloat \<Rightarrow> trend option" where
  "direction c =
     (if flt c (Fin 0) then Some Fall else if fgt c (Fin 0) then Some Rise else None)"

definition daily_directions :: "real list \<Rightarrow> trend option list" where
  "daily_directions cs = map direction (drop 1 (pct_change 1 cs))"

definition last_dir :: "trend option list \<Rightarrow> trend option" where
  "last_dir ds = (if ds = [] then None else last ds)"

text \<open>
  The streak at the end of a sequence of days: the number of consecutive days, counted
  back from the last one, that moved in the direction of the last one; no streak when the
  last day has no direction.
\<close>

definition run_length :: "trend option list \<Rightarrow> nat" where
  "run_length ds =
     (case last_dir ds of
        None \<Rightarrow> 0
      | Some d \<Rightarrow> length (takeWhile (\<lambda>x. x = Some d) (rev ds)))"

text \<open>The first day at which the streak is 3 or more, with the streak and direction there.\<close>

definition first_streak :: "trend option list \<Rightarrow> (nat \<times> trend option) option" where
  "first_streak ds =
     (case List.find (\<lambda>k. 3 \<le> run_length (take k ds)) [1..<Suc (length ds)] of
        None \<Rightarrow> None
      | Some k \<Rightarrow> Some (run_length (take k ds), last_dir (take k ds)))"

section \<open>Sample inputs\<close>

definition sample_frame :: "real list \<Rightarrow> frame" where
  "sample_frame cs =
     \<lparr>has_close = True,
      rows = zip (map (\<lambda>i. \<lparr>year = 2024, month = 3, day = Suc i\<rparr>) [0..<length cs]) cs\<rparr>"

definition rising_closes :: "real list" where
  "rising_closes = [10, 9, 9, 10, 11, 10, 11, 12, 13, 14]"

text \<open>Three consecutive days of direction \<open>d\<close>, the first of them day \<open>i\<close>.\<close>

definition streak_at :: "trend \<Rightarrow> trend option list \<Rightarrow> nat \<Rightarrow> bool" where
  "streak_at d ds i =
     (i + 2 < length ds \<and> ds ! i = Some d \<and> ds ! (i + 1) = Some d \<and> ds ! (i + 2) = Some d)"

definition rise_then_fall :: "real list" where
  "rise_then_fall = [1, 2, 3, 4, 3, 2, 1]"

definition falling_closes :: "real list" where
  "falling_closes = [10, 11, 10, 9, 8, 7]"

definition flat_closes :: "real list" where
  "flat_closes = [10, 11, 10, 10, 11, 10]"

definition sample_market :: "string \<Rightarrow> download" where
  "sample_market s =
     (if s = ''TCS.NS'' then Returns (sample_frame rising_closes)
      else if s = ''INFY.NS'' then Returns (sample_frame rise_then_fall)
      else if s = ''SBIN.NS'' then Raises
      else if s = ''ITC.NS'' then Returns \<lparr>has_close = False, rows = rows (sample_frame rising_closes)\<rparr>
      else if s = ''LT.NS'' then Returns (sample_frame falling_closes)
      else if s = ''RELIANCE.NS'' then Returns (sample_frame [])
      else Returns (sample_frame flat_closes))"

text \<open>A table in descending order of a column.\<close>

abbreviation descending :: "('a \<Rightarrow> pyfloat) \<Rightarrow> 'a list \<Rightarrow> bool" where
  "descending k \<equiv> sorted_wrt (\<lambda>a b. fle (k b) (k a))"

text \<open>A ticker has valid momentum data when it yields a row whose momentum is a number.\<close>

definition valid_momentum :: "(string \<Rightarrow> download) \<Rightarrow> nat \<Rightarrow> string \<Rightarrow> bool" where
  "valid_momentum yf periods s =
     (case momentum_row_of periods s (get_stock_data yf s) of
        None \<Rightarrow> False
      | Some r \<Rightarrow> change_pct r \<noteq> NaN)"





definition pair_market :: "string \<Rightarrow> download" where
  "pair_market s =
     (if s = ''TCS.NS'' then Returns (sample_frame rising_closes)
      else if s = ''LT.NS'' then Returns (sample_frame falling_closes)
      else Raises)"

definition lone_market :: "string \<Rightarrow> download" where
  "lone_market s =
     (if s = ''TCS.NS'' then Returns (sample_frame rising_closes)
      else Returns (sample_frame [10, 11, 12]))"


text \<open>
  A failed pull: the download raised, or its frame is empty or has no \<open>Close\<close> column.
\<close>

definition fetch_failed :: "download \<Rightarrow> bool" where
  "fetch_failed d = (case d of Raises \<Rightarrow> True | Returns df \<Rightarrow> df_empty df \<or> \<not> has_close df)"

text \<open>The arithmetic mean of the last \<open>window\<close> closes.\<close>

definition sma_spec :: "nat \<Rightarrow> real list \<Rightarrow> real" where
  "sma_spec window cs = sum_list (tail window cs) / real window"

text \<open>Sample frames of 20 and more rows.\<close>

definition long_closes :: "real list" where
  "long_closes = [1, 2, 3, 4, 5, 6, 7, 8, 9, 10, 11, 12, 13, 14, 15, 16, 17, 18, 19, 20, 21]"

definition zero_closes :: "real list" where
  "zero_closes = [0, 0, 0, 0, 0, 0, 0, 0, 0, 0, 0, 0, 0, 0, 0, 0, 0, 0, 0, 0]"

definition sma_market :: "string \<Rightarrow> download" where
  "sma_market s =
     (if s = ''TCS.NS'' then Returns (sample_frame long_closes)
      else Returns (sample_frame rising_closes))"

definition zero_market :: "string \<Rightarrow> download" where
  "zero_market s =
     (if s = ''LT.NS'' then Returns (sample_frame zero_closes)
      else Returns (sample_frame long_closes))"

text \<open>A ticker yields valid data when its frame is not empty and has a \<open>Close\<close> column.\<close>

definition valid_data :: "frame \<Rightarrow> bool" where
  "valid_data df = (\<not> (df_empty df \<or> \<not> has_close df))"

text \<open>A market where every pull succeeds and no ticker has a streak, and one where every pull fails.\<close>

definition flat_market :: "string \<Rightarrow> download" where
  "flat_market s = Returns (sample_frame flat_closes)"

definition dead_market :: "string \<Rightarrow> download" where
  "dead_market s = Raises"

section \<open>Evaluating the sample inputs\<close>

lemma closes_sample_frame: "closes (sample_frame cs) = cs"
  by (simp add: closes_def sample_frame_def)

lemma has_close_sample_frame: "has_close (sample_frame cs)"
  by (simp add: sample_frame_def)

lemma rows_sample_frame_Nil: "rows (sample_frame cs) = [] \<longleftrightarrow> cs = []"
  by (simp add: sample_frame_def)

lemma index_sample_frame:
  "index (sample_frame cs) = map (\<lambda>i. \<lparr>year = 2024, month = 3, day = Suc i\<rparr>) [0..<length cs]"
  by (simp add: index_def sample_frame_def)

lemmas eval_frame =
  closes_sample_frame has_close_sample_frame rows_sample_frame_Nil index_sample_frame
  rising_closes_def falling_closes_def flat_closes_def rise_then_fall_def
  df_empty_def empty_frame_def get_stock_data_def NIFTY_100_def
  pct_change_def fsub_def fgt_def Let_def tail_def upt_rec
  strftime_Ymd_def strftime_db_def pad2_def pad4_def digit_def month_abbr_def
  round2_def round_half_even_def

lemmas eval_trend =
  eval_frame auto_trends_def auto_trends_row_def streak_step_def
  daily_directions_def direction_def first_streak_def run_length_def last_dir_def
  streak_at_def

section \<open>Properties of the trend detector\<close>

lemma streak_step_run:
  "streak_step c (run_length p, last_dir p) =
     (run_length (p @ [direction c]), last_dir (p @ [direction c]))"
  by (cases p rule: rev_cases)
     (auto simp: streak_step_def run_length_def last_dir_def direction_def)

lemma find_map_image:
  "List.find P (map f xs) = map_option f (List.find (\<lambda>x. P (f x)) xs)"
  by (induction xs) auto

lemma find_upt_Suc:
  "List.find P [Suc 0..<Suc (Suc n)] =
     (if P (Suc 0) then Some (Suc 0)
      else map_option Suc (List.find (\<lambda>k. P (Suc k)) [Suc 0..<Suc n]))"
proof -
  have "[Suc 0..<Suc (Suc n)] = Suc 0 # map Suc [Suc 0..<Suc n]"
    by (simp add: upt_conv_Cons map_Suc_upt del: upt_Suc)
  then show ?thesis
    by (simp add: find_map_image del: upt_Suc)
qed

lemma run_length_Nil: "run_length [] = 0"
  by (simp add: run_length_def last_dir_def)

lemma last_dir_Nil: "last_dir [] = None"
  by (simp add: last_dir_def)

text \<open>
  The loop invariant: after the days \<open>p\<close>, none of which ended a streak of 3, the counter
  is the streak at the end of \<open>p\<close> and the trend is the direction of its last day.
\<close>

lemma streak_scan_prefix:
  "run_length p < 3 \<Longrightarrow>
   streak_scan cs (run_length p, last_dir p) =
     (case List.find (\<lambda>k. 3 \<le> run_length (p @ take k (map direction cs)))
             [Suc 0..<Suc (length cs)] of
        None \<Rightarrow> None
      | Some k \<Rightarrow> Some (run_length (p @ take k (map direction cs)),
                         last_dir (p @ take k (map direction cs))))"
proof (induction cs arbitrary: p)
  case Nil
  then show ?case by simp
next
  case (Cons c cs)
  let ?q = "p @ [direction c]"
  show ?case
  proof (cases "3 \<le> run_length ?q")
    case True
    then show ?thesis
      by (simp add: streak_step_run find_upt_Suc del: upt_Suc)
  next
    case False
    then have "run_length ?q < 3" by simp
    from Cons.IH [OF this] False show ?thesis
      by (simp add: streak_step_run find_upt_Suc del: upt_Suc split: option.split)
  qed
qed

lemma streak_scan_first_streak:
  "streak_scan chg (0, None) = first_streak (map direction chg)"
  using streak_scan_prefix [of "[]" chg]
  by (simp add: first_streak_def run_length_Nil last_dir_Nil del: upt_Suc split: option.split)

text \<open>
  C1. The scan of \<open>/api/auto_trends\<close> is the streak counter of the specification over the
  sign sequence of the daily changes: it stops at the first day on which the number of
  consecutive days moving in that day's direction is 3 or more and reports that count and
  direction, and it reports nothing when there is no such day. A day that changes
  direction starts a new count at 1, a flat day leaves no streak. The row of a ticker
  carries exactly this count and direction.
\<close>

theorem trend_scan_follows_streak_spec:
  "streak_scan chg (0, None) = first_streak (map direction chg) \<and>
   map_option (\<lambda>r. (days r, streak_type r)) (auto_trends_row s df) =
     (if df_empty df \<or> \<not> has_close df then None
      else first_streak (daily_directions (closes df)))"
  by (simp add: streak_scan_first_streak auto_trends_row_def daily_directions_def
           split: option.split)

theorem trend_scan_follows_streak_spec_witness:
  "streak_scan (drop 1 (pct_change 1 rising_closes)) (0, None) = Some (3, Some Rise) \<and>
   map_option (\<lambda>r. (days r, streak_type r))
     (auto_trends_row ''TCS.NS'' (sample_frame rising_closes)) = Some (3, Some Rise)"
proof -
  have e: "first_streak (map direction (drop 1 (pct_change 1 rising_closes)))
             = Some (3, Some Rise)"
    by (simp add: eval_trend)
  have d: "first_streak (daily_directions (closes (sample_frame rising_closes)))
             = Some (3, Some Rise)"
    by (simp add: eval_trend)
  have v: "\<not> (df_empty (sample_frame rising_closes) \<or> \<not> has_close (sample_frame rising_closes))"
    by (simp add: eval_trend)
  show ?thesis
    using trend_scan_follows_streak_spec
      [of "drop 1 (pct_change 1 rising_closes)" "''TCS.NS''" "sample_frame rising_closes"]
    by (simp only: e d v if_False simp_thms)
qed

lemma streak_step_bound:
  "fst (streak_step c st) \<le> Suc (fst st) \<and>
   (0 < fst (streak_step c st) \<longrightarrow> snd (streak_step c st) \<noteq> None)"
  by (cases st) (simp add: streak_step_def)

lemma streak_scan_exactly_three:
  "fst st < 3 \<Longrightarrow> streak_scan cs st = Some (n, t) \<Longrightarrow> n = 3 \<and> t \<noteq> None"
proof (induction cs arbitrary: st)
  case Nil
  then show ?case by simp
next
  case (Cons c cs)
  show ?case
  proof (cases "3 \<le> fst (streak_step c st)")
    case True
    with Cons.prems have "streak_step c st = (n, t)" by simp
    with True streak_step_bound [of c st] Cons.prems(1) show ?thesis by auto
  next
    case False
    with Cons.prems have "streak_scan cs (streak_step c st) = Some (n, t)" by simp
    with False Cons.IH [of "streak_step c st"] show ?thesis by simp
  qed
qed

lemma takeWhile_three:
  "3 \<le> length (takeWhile P r) \<Longrightarrow> \<exists>a b c r'. r = a # b # c # r' \<and> P a \<and> P b \<and> P c"
  by (cases r; cases "tl r"; cases "tl (tl r)") (auto split: if_splits)

lemma run_length_three:
  "3 \<le> run_length p \<longleftrightarrow> (\<exists>q d. p = q @ [Some d, Some d, Some d])"
proof
  assume h: "3 \<le> run_length p"
  then obtain d where d: "last_dir p = Some d"
    and l: "3 \<le> length (takeWhile (\<lambda>x. x = Some d) (rev p))"
    by (auto simp: run_length_def split: option.splits)
  from takeWhile_three [OF l] obtain r' where "rev p = Some d # Some d # Some d # r'"
    by auto
  then have "p = rev r' @ [Some d, Some d, Some d]"
    by (simp add: rev_swap)
  then show "\<exists>q d. p = q @ [Some d, Some d, Some d]" by blast
next
  assume "\<exists>q d. p = q @ [Some d, Some d, Some d]"
  then show "3 \<le> run_length p"
    by (auto simp: run_length_def last_dir_def)
qed

lemma streak_at_take:
  assumes "streak_at d ds i"
  shows "3 \<le> run_length (take (i + 3) ds)"
proof -
  from assms have len: "i + 2 < length ds"
    and v: "ds ! i = Some d" "ds ! (i + 1) = Some d" "ds ! (i + 2) = Some d"
    by (simp_all add: streak_at_def)
  have "take (i + 3) ds = take i ds @ [ds ! i, ds ! (i + 1), ds ! (i + 2)]"
    using len by (simp add: numeral_3_eq_3 take_Suc_conv_app_nth)
  with v have "take (i + 3) ds = take i ds @ [Some d, Some d, Some d]" by simp
  then show ?thesis by (subst run_length_three) blast
qed

lemma take_streak_at:
  assumes "3 \<le> run_length (take k ds)" and "k \<le> length ds"
  shows "\<exists>d. 3 \<le> k \<and> streak_at d ds (k - 3) \<and> last_dir (take k ds) = Some d"
proof -
  from assms(1) obtain q d where q: "take k ds = q @ [Some d, Some d, Some d]"
    by (subst (asm) run_length_three) blast
  from arg_cong [OF q, of length] assms(2) have k: "k = length q + 3" by simp
  have nth: "ds ! (length q + m) = [Some d, Some d, Some d] ! m" if "m < 3" for m
  proof -
    have "ds ! (length q + m) = take k ds ! (length q + m)" using that k by simp
    then show ?thesis by (simp only: q nth_append_length_plus)
  qed
  have "ds ! (length q) = Some d" using nth [of 0] by simp
  moreover have "ds ! (length q + 1) = Some d" using nth [of 1] by simp
  moreover have "ds ! (length q + 2) = Some d" using nth [of 2] by simp
  moreover have "last_dir (take k ds) = Some d" by (simp add: q last_dir_def)
  ultimately show ?thesis using k assms(2) by (auto simp: streak_at_def)
qed

lemma first_streak_fall:
  assumes f: "streak_at Fall ds i" and r: "\<forall>j<i. \<not> streak_at Rise ds j"
  shows "\<exists>n. first_streak ds = Some (n, Some Fall)"
proof -
  let ?P = "\<lambda>k. 3 \<le> run_length (take k ds)"
  let ?ks = "[1..<Suc (length ds)]"
  from f have len: "i + 3 \<le> length ds" by (simp add: streak_at_def)
  have Pi: "?P (i + 3)" using streak_at_take [OF f] .
  have "i + 3 \<in> set ?ks" using len by auto
  with Pi have "\<exists>x. x \<in> set ?ks \<and> ?P x" by blast
  then have "List.find ?P ?ks \<noteq> None" by (simp only: find_None_iff not_not)
  then obtain k where k: "List.find ?P ?ks = Some k" by blast
  then obtain m where m: "m < length ?ks" "?P (?ks ! m)" "k = ?ks ! m"
    and first: "\<forall>j<m. \<not> ?P (?ks ! j)"
    unfolding find_Some_iff by blast
  from m have km: "k = Suc m" and klen: "k \<le> length ds"
    by (simp_all del: upt_Suc)
  have "k \<le> i + 3"
  proof (rule ccontr)
    assume "\<not> k \<le> i + 3"
    then have "i + 2 < m" using km by simp
    with first have "\<not> ?P (?ks ! (i + 2))" by blast
    moreover have "?ks ! (i + 2) = i + 3" using len by (simp del: upt_Suc)
    ultimately show False using Pi by simp
  qed
  from take_streak_at [OF _ klen] m(2,3) obtain d
    where d: "3 \<le> k" "streak_at d ds (k - 3)" "last_dir (take k ds) = Some d"
    by blast
  have "d = Fall"
  proof (cases d)
    case Fall
    then show ?thesis .
  next
    case Rise
    show ?thesis
    proof (cases "k - 3 < i")
      case True
      with r d(2) Rise show ?thesis by blast
    next
      case False
      with \<open>k \<le> i + 3\<close> d(1) have "k - 3 = i" by simp
      with d(2) f Rise show ?thesis by (simp add: streak_at_def)
    qed
  qed
  with d(3) k show ?thesis by (simp add: first_streak_def del: upt_Suc)
qed

lemma auto_trends_row_fields:
  "auto_trends_row s df = Some r \<Longrightarrow> symbol r = s \<and> days r = 3 \<and> streak_type r \<noteq> None"
  by (auto simp: auto_trends_row_def split: if_splits option.splits
           dest: streak_scan_exactly_three [rotated])

lemma auto_trends_results_symbols:
  "map symbol (auto_trends_results yf syms) =
     filter (\<lambda>s. auto_trends_row s (get_stock_data yf s) \<noteq> None) syms"
  by (induction syms) (auto split: option.splits dest: auto_trends_row_fields)

lemma auto_trends_results_days:
  "r \<in> set (auto_trends_results yf syms) \<Longrightarrow> days r = 3"
  by (induction syms) (auto split: option.splits dest: auto_trends_row_fields)

lemma distinct_map_filter_le1:
  "distinct (map f xs) \<Longrightarrow> length (filter (\<lambda>r. f r = s) xs) \<le> 1"
  by (induction xs) (auto simp: filter_empty_conv image_iff)

lemma distinct_NIFTY_100: "distinct NIFTY_100"
  by (simp add: NIFTY_100_def)

text \<open>
  C9. A response of \<open>/api/auto_trends\<close> holds at most one entry for a ticker, and every
  entry has \<open>days\<close> equal to 3: the scan leaves the loop the first time the counter reaches
  3, so a longer streak or a later one is not reported.
\<close>

theorem auto_trends_one_entry_of_three_days:
  "auto_trends yf = (Payload rs, st) \<Longrightarrow>
     (\<forall>r\<in>set rs. days r = 3) \<and> (\<forall>s. length (filter (\<lambda>r. symbol r = s) rs) \<le> 1)"
proof -
  assume "auto_trends yf = (Payload rs, st)"
  then have rs: "rs = auto_trends_results yf NIFTY_100"
    by (simp add: auto_trends_def Let_def split: if_splits)
  have "distinct (map symbol rs)"
    unfolding rs auto_trends_results_symbols using distinct_NIFTY_100 by simp
  then have "length (filter (\<lambda>r. symbol r = s) rs) \<le> 1" for s
    by (rule distinct_map_filter_le1)
  then show ?thesis using rs auto_trends_results_days by blast
qed

theorem auto_trends_one_entry_of_three_days_witness:
  "auto_trends sample_market = (Payload (auto_trends_results sample_market NIFTY_100), 200) \<and>
   days (hd (auto_trends_results sample_market NIFTY_100)) = 3 \<and>
   length (filter (\<lambda>r. symbol r = ''TCS.NS'') (auto_trends_results sample_market NIFTY_100)) \<le> 1"
proof -
  have ne: "auto_trends_results sample_market NIFTY_100 \<noteq> []"
    by (simp add: eval_trend sample_market_def)
  then have a: "auto_trends sample_market =
      (Payload (auto_trends_results sample_market NIFTY_100), 200)"
    by (simp add: auto_trends_def)
  from auto_trends_one_entry_of_three_days [OF a] ne a show ?thesis
    by simp
qed

text \<open>
  C2, as amended. When the frame has three consecutive days of negative change and no three
  consecutive days of positive change begin before them, the detector reports the ticker
  with \<open>days = 3\<close> and \<open>streak_type = fall\<close>.
\<close>

theorem three_falls_first_reported_as_fall:
  assumes "has_close df"
    and "streak_at Fall (daily_directions (closes df)) i"
    and "\<forall>j<i. \<not> streak_at Rise (daily_directions (closes df)) j"
  shows "\<exists>r. auto_trends_row s df = Some r \<and> symbol r = s \<and> days r = 3 \<and>
             streak_type r = Some Fall"
proof -
  from assms(2) have "closes df \<noteq> []"
    by (auto simp: streak_at_def daily_directions_def pct_change_def)
  then have ne: "\<not> df_empty df" by (auto simp: df_empty_def closes_def)
  from first_streak_fall [OF assms(2,3)] obtain n
    where "first_streak (daily_directions (closes df)) = Some (n, Some Fall)" ..
  then have scan: "streak_scan (drop 1 (pct_change 1 (closes df))) (0, None) = Some (n, Some Fall)"
    by (simp add: streak_scan_first_streak daily_directions_def)
  then obtain r where r: "auto_trends_row s df = Some r" "streak_type r = Some Fall"
    using ne assms(1) by (simp add: auto_trends_row_def)
  with auto_trends_row_fields [OF r(1)] show ?thesis by simp
qed

theorem three_falls_first_reported_as_fall_witness:
  "has_close (sample_frame falling_closes) \<and>
   streak_at Fall (daily_directions (closes (sample_frame falling_closes))) 1 \<and>
   (\<exists>r. auto_trends_row ''LT.NS'' (sample_frame falling_closes) = Some r \<and>
        symbol r = ''LT.NS'' \<and> days r = 3 \<and> streak_type r = Some Fall)"
proof -
  have h: "has_close (sample_frame falling_closes)"
    by (simp add: eval_trend)
  have f: "streak_at Fall (daily_directions (closes (sample_frame falling_closes))) 1"
    by (simp add: eval_trend)
  have "\<not> streak_at Rise (daily_directions (closes (sample_frame falling_closes))) 0"
    by (simp add: eval_trend)
  then have r: "\<forall>j<1. \<not> streak_at Rise (daily_directions (closes (sample_frame falling_closes))) j"
    by simp
  from three_falls_first_reported_as_fall [OF h f r, of "''LT.NS''"] h f show ?thesis
    by simp
qed

text \<open>
  C2 as stated fails: the closes 1, 2, 3, 4, 3, 2, 1 end in three consecutive declines, but
  the scan has already stopped at the three rises before them and reports a rise.
\<close>

theorem three_declines_after_three_rises_counterexample:
  "has_close (sample_frame rise_then_fall) \<and>
   streak_at Fall (daily_directions (closes (sample_frame rise_then_fall))) 3 \<and>
   map_option streak_type (auto_trends_row ''INFY.NS'' (sample_frame rise_then_fall))
     = Some (Some Rise)"
  by (simp add: eval_trend)

section \<open>Properties of sorting\<close>

lemma fle_total: "a \<noteq> NaN \<Longrightarrow> b \<noteq> NaN \<Longrightarrow> fle a b \<or> fle b a"
  by (cases a; cases b) auto

lemma fle_trans: "fle a b \<Longrightarrow> fle b c \<Longrightarrow> fle a c"
  by (cases a; cases b; cases c) auto

lemma mset_insort_desc: "mset (insort_desc k x ys) = add_mset x (mset ys)"
  by (induction ys) auto

lemma set_insort_desc: "set (insort_desc k x ys) = insert x (set ys)"
  by (induction ys) auto

lemma descending_insort_desc:
  "k x \<noteq> NaN \<Longrightarrow> \<forall>y\<in>set ys. k y \<noteq> NaN \<Longrightarrow> descending k ys \<Longrightarrow>
   descending k (insort_desc k x ys)"
proof (induction ys)
  case Nil
  then show ?case by simp
next
  case (Cons y ys)
  show ?case
  proof (cases "fle (k y) (k x)")
    case True
    with Cons.prems(3) show ?thesis
      by (auto intro: fle_trans)
  next
    case False
    with Cons.prems fle_total [of "k x" "k y"] have "fle (k x) (k y)" by simp
    with False Cons show ?thesis
      by (auto simp: set_insort_desc)
  qed
qed

lemma mset_foldr_insort_desc: "mset (foldr (insort_desc k) xs []) = mset xs"
  by (induction xs) (simp_all add: mset_insort_desc)

lemma descending_foldr_insort_desc:
  "\<forall>x\<in>set xs. k x \<noteq> NaN \<Longrightarrow> descending k (foldr (insort_desc k) xs [])"
proof (induction xs)
  case Nil
  then show ?case by simp
next
  case (Cons x xs)
  have "set (foldr (insort_desc k) xs []) = set xs"
    using mset_foldr_insort_desc [of k xs] by (metis set_mset_mset)
  with Cons show ?case
    by (simp add: descending_insort_desc)
qed

lemma sort_values_desc_numbers:
  "\<forall>x\<in>set rs. k x \<noteq> NaN \<Longrightarrow> sort_values_desc k rs = foldr (insort_desc k) rs []"
  by (simp add: sort_values_desc_def filter_empty_conv [THEN iffD2])

lemma mset_sort_values_desc: "mset (sort_values_desc k rs) = mset rs"
  by (simp add: sort_values_desc_def mset_foldr_insort_desc)

lemma descending_sort_values_desc:
  "\<forall>x\<in>set rs. k x \<noteq> NaN \<Longrightarrow> descending k (sort_values_desc k rs)"
  by (simp add: sort_values_desc_numbers descending_foldr_insort_desc)

section \<open>Properties of the momentum routes\<close>

lemma length_pct_change: "length (pct_change periods cs) = length cs"
  by (simp add: pct_change_def)

lemma pct_change_nth:
  "i < length cs \<Longrightarrow>
   pct_change periods cs ! i =
     (if i < periods then NaN
      else fsub (fdiv (Fin (cs ! i)) (Fin (cs ! (i - periods)))) (Fin 1))"
  by (simp add: pct_change_def del: fdiv.simps)

lemma momentum_column_short:
  assumes "\<not> periods < length cs"
  shows "dropna (map (\<lambda>v. fmul v (Fin 100)) (pct_change periods cs)) = []"
  using assms by (simp add: dropna_def pct_change_def filter_empty_conv)

lemma momentum_row_of_Some:
  assumes "momentum_row_of periods s df = Some r"
  shows "\<not> df_empty df \<and> has_close df \<and> periods < length (closes df) \<and> symbol r = s"
proof -
  from assms have v: "\<not> df_empty df" "has_close df"
    and ne: "dropna (map (\<lambda>v. fmul v (Fin 100)) (pct_change periods (closes df))) \<noteq> []"
    by (auto simp: momentum_row_of_def Let_def split: if_splits)
  from ne momentum_column_short have len: "periods < length (closes df)" by blast
  from assms v ne have "symbol r = s"
    by (auto simp: momentum_row_of_def Let_def)
  with v len show ?thesis by simp
qed

lemma momentum_results_rows:
  "r \<in> set (momentum_results yf periods syms) \<Longrightarrow>
     symbol r \<in> set syms \<and>
     momentum_row_of periods (symbol r) (get_stock_data yf (symbol r)) = Some r"
  by (induction syms) (auto split: option.splits dest: momentum_row_of_Some)

lemma valid_momentum_symbols:
  "map symbol (filter (\<lambda>r. change_pct r \<noteq> NaN) (momentum_results yf periods syms)) =
     filter (valid_momentum yf periods) syms"
  by (induction syms) (auto simp: valid_momentum_def split: option.splits dest: momentum_row_of_Some)

lemma sort_values_desc_eq_Nil: "sort_values_desc k rs = [] \<longleftrightarrow> rs = []"
  using mset_sort_values_desc [of k rs] by (metis mset_zero_iff)

lemmas eval_momentum =
  eval_frame valid_momentum_def momentum_row_of_def dropna_def
  calculate_momentum_data_def momentum_stocks_def high_low_performers_def
  sort_values_desc_def

lemma calculate_momentum_data_cases:
  "calculate_momentum_data yf syms p =
     (if filter (valid_momentum yf p) syms = []
      then ([], Some (if momentum_results yf p syms = [] then ''No valid momentum data found''
                      else ''No numeric momentum values''))
      else (sort_values_desc change_pct
              (filter (\<lambda>r. change_pct r \<noteq> NaN) (momentum_results yf p syms)), None))"
proof -
  have "filter (valid_momentum yf p) syms = [] \<longleftrightarrow>
        filter (\<lambda>r. change_pct r \<noteq> NaN) (momentum_results yf p syms) = []"
    using valid_momentum_symbols [of yf p syms] by (metis map_is_Nil_conv)
  then show ?thesis
    by (auto simp: calculate_momentum_data_def Let_def)
qed

lemma momentum_table:
  assumes "filter (valid_momentum yf p) syms \<noteq> []"
  shows "\<exists>T. calculate_momentum_data yf syms p = (T, None) \<and>
             descending change_pct T \<and>
             mset (map symbol T) = mset (filter (valid_momentum yf p) syms) \<and>
             length T = length (filter (valid_momentum yf p) syms) \<and>
             (\<forall>r\<in>set T. momentum_row_of p (symbol r) (get_stock_data yf (symbol r)) = Some r)"
proof -
  let ?V = "filter (\<lambda>r. change_pct r \<noteq> NaN) (momentum_results yf p syms)"
  let ?T = "sort_values_desc change_pct ?V"
  have c: "calculate_momentum_data yf syms p = (?T, None)"
    using assms by (simp add: calculate_momentum_data_cases)
  have d: "descending change_pct ?T"
    by (rule descending_sort_values_desc) simp
  have m: "mset ?T = mset ?V" by (rule mset_sort_values_desc)
  have "mset (map symbol ?T) = mset (map symbol ?V)"
    using m by (metis mset_map)
  then have s: "mset (map symbol ?T) = mset (filter (valid_momentum yf p) syms)"
    by (simp only: valid_momentum_symbols)
  have l: "length ?T = length (filter (valid_momentum yf p) syms)"
    using s by (metis length_map size_mset)
  have "set ?T = set ?V" using m by (metis set_mset_mset)
  then have r: "\<forall>r\<in>set ?T. momentum_row_of p (symbol r) (get_stock_data yf (symbol r)) = Some r"
    using momentum_results_rows by auto
  from c d s l r show ?thesis by blast
qed

text \<open>
  C7. When some ticker has valid momentum data, \<open>/api/momentum\<close> answers 200 with a list
  that is in descending order of \<open>change_pct\<close> and holds exactly one record for every such
  ticker, the record computed for it.
\<close>

theorem momentum_ranking_sorted_and_complete:
  assumes "filter (valid_momentum yf 5) NIFTY_100 \<noteq> []"
  shows "\<exists>rs. momentum_stocks yf = (Payload rs, 200) \<and>
              descending change_pct rs \<and>
              mset (map symbol rs) = mset (filter (valid_momentum yf 5) NIFTY_100) \<and>
              (\<forall>r\<in>set rs. momentum_row_of 5 (symbol r) (get_stock_data yf (symbol r)) = Some r)"
proof -
  from momentum_table [OF assms] obtain T
    where T: "calculate_momentum_data yf NIFTY_100 5 = (T, None)"
      "descending change_pct T"
      "mset (map symbol T) = mset (filter (valid_momentum yf 5) NIFTY_100)"
      "\<forall>r\<in>set T. momentum_row_of 5 (symbol r) (get_stock_data yf (symbol r)) = Some r"
    by blast
  from T(1) have "momentum_stocks yf = (Payload T, 200)"
    by (simp add: momentum_stocks_def)
  with T show ?thesis by blast
qed

theorem momentum_ranking_sorted_and_complete_witness:
  "filter (valid_momentum sample_market 5) NIFTY_100 \<noteq> [] \<and>
   (\<exists>rs. momentum_stocks sample_market = (Payload rs, 200) \<and>
         descending change_pct rs \<and> length rs = 7)"
proof -
  have v: "filter (valid_momentum sample_market 5) NIFTY_100 \<noteq> []"
    by (simp add: eval_momentum sample_market_def)
  have k: "length (filter (valid_momentum sample_market 5) NIFTY_100) = 7"
    by (simp add: eval_momentum sample_market_def)
  from momentum_ranking_sorted_and_complete [OF v] obtain rs
    where r: "momentum_stocks sample_market = (Payload rs, 200)" "descending change_pct rs"
      and m: "mset (map symbol rs) = mset (filter (valid_momentum sample_market 5) NIFTY_100)"
    by blast
  from m have "length rs = 7" using k by (metis length_map size_mset)
  with r v show ?thesis by blast
qed



text \<open>
  C10. With \<open>k\<close> valid tickers, \<open>1 \<le> k < 3\<close>, \<open>/api/high_low_performers\<close> answers 200
  with \<open>N = k div 2\<close> and \<open>N\<close> records in each list; with one valid ticker both lists
  are empty.
\<close>

theorem few_valid_tickers_halve_N:
  assumes "k = length (filter (valid_momentum yf 5) NIFTY_100)" and "1 \<le> k" and "k < 3"
  shows "\<exists>p. high_low_performers yf = (Payload p, 200) \<and> N p = k div 2 \<and>
             length (high p) = N p \<and> length (low p) = N p \<and>
             (k = 1 \<longrightarrow> high p = [] \<and> low p = [])"
proof -
  from assms(1,2) have "filter (valid_momentum yf 5) NIFTY_100 \<noteq> []" by auto
  from momentum_table [OF this] obtain T
    where T: "calculate_momentum_data yf NIFTY_100 5 = (T, None)" "length T = k"
    using assms(1) by auto
  define p where
    "p = \<lparr>high = take (k div 2) T, low = tail (k div 2) T, period = ''5-Day (1 Week)'',
          N = k div 2\<rparr>"
  have "high_low_performers yf = (Payload p, 200)"
    using T assms(3) by (simp add: high_low_performers_def Let_def p_def)
  moreover have "N p = k div 2" by (simp add: p_def)
  moreover have "length (high p) = k div 2" "length (low p) = k div 2"
    using T(2) by (simp_all add: p_def tail_def)
  moreover have "k = 1 \<longrightarrow> high p = [] \<and> low p = []"
    using T(2) by (simp add: p_def tail_def)
  ultimately show ?thesis by auto
qed

theorem few_valid_tickers_halve_N_witness:
  "(\<exists>p. high_low_performers lone_market = (Payload p, 200) \<and> N p = 0 \<and>
        high p = [] \<and> low p = []) \<and>
   (\<exists>p. high_low_performers pair_market = (Payload p, 200) \<and> N p = 1 \<and>
        length (high p) = 1 \<and> length (low p) = 1)"
proof -
  have k1: "1 = length (filter (valid_momentum lone_market 5) NIFTY_100)"
    by (simp add: eval_momentum lone_market_def)
  have k2: "2 = length (filter (valid_momentum pair_market 5) NIFTY_100)"
    by (simp add: eval_momentum pair_market_def)
  from few_valid_tickers_halve_N [OF k1] few_valid_tickers_halve_N [OF k2]
  show ?thesis by auto
qed

section \<open>Properties of a failed pull\<close>

lemma fetch_failed_frame:
  "fetch_failed d \<Longrightarrow> yf s = d \<Longrightarrow>
   df_empty (get_stock_data yf s) \<or> \<not> has_close (get_stock_data yf s)"
  by (auto simp: fetch_failed_def get_stock_data_def empty_frame_def df_empty_def
           split: download.splits)

lemma failed_rows:
  assumes "df_empty df \<or> \<not> has_close df"
  shows "auto_trends_row s df = None"
    and "momentum_row_of p s df = None"
    and "sma_row_of p s df = Inr None"
  using assms
  by (auto simp: auto_trends_row_def momentum_row_of_def sma_row_of_def)

lemma get_stock_data_other:
  "t \<noteq> s \<Longrightarrow> get_stock_data (yf(s := d)) t = get_stock_data yf t"
  by (simp add: get_stock_data_def)

lemma get_stock_data_failed:
  "fetch_failed d \<Longrightarrow>
   df_empty (get_stock_data (yf(s := d)) s) \<or> \<not> has_close (get_stock_data (yf(s := d)) s)"
  by (rule fetch_failed_frame) simp_all

lemma sma_row_of_symbol: "sma_row_of p s df = Inr (Some r) \<Longrightarrow> symbol r = s"
  by (auto simp: sma_row_of_def Let_def split: if_splits sum.splits)

lemma auto_trends_row_upd:
  assumes "fetch_failed d"
  shows "auto_trends_row t (get_stock_data (yf(s := d)) t) =
           (if t = s then None else auto_trends_row t (get_stock_data yf t))"
  using failed_rows(1) [OF get_stock_data_failed [OF assms]]
  by (simp add: get_stock_data_other)

lemma momentum_row_of_upd:
  assumes "fetch_failed d"
  shows "momentum_row_of p t (get_stock_data (yf(s := d)) t) =
           (if t = s then None else momentum_row_of p t (get_stock_data yf t))"
  using failed_rows(2) [OF get_stock_data_failed [OF assms]]
  by (simp add: get_stock_data_other)

lemma sma_row_of_upd:
  assumes "fetch_failed d"
  shows "sma_row_of p t (get_stock_data (yf(s := d)) t) =
           (if t = s then Inr None else sma_row_of p t (get_stock_data yf t))"
  using failed_rows(3) [OF get_stock_data_failed [OF assms]]
  by (simp add: get_stock_data_other)

lemma auto_trends_results_failed:
  assumes "fetch_failed d" and yf': "yf' = yf(s := d)"
  shows "auto_trends_results yf' syms =
           filter (\<lambda>r. symbol r \<noteq> s) (auto_trends_results yf syms)"
proof (induction syms)
  case Nil
  then show ?case by simp
next
  case (Cons t syms)
  have step: "auto_trends_row t (get_stock_data yf' t) =
                (if t = s then None else auto_trends_row t (get_stock_data yf t))"
    unfolding yf' by (rule auto_trends_row_upd [OF assms(1)])
  have "symbol r = t" if "auto_trends_row t (get_stock_data yf t) = Some r" for r
    using auto_trends_row_fields [OF that] by simp
  with Cons show ?case
    by (simp add: step split: option.split)
qed

lemma momentum_results_failed:
  assumes "fetch_failed d" and yf': "yf' = yf(s := d)"
  shows "momentum_results yf' p syms =
           filter (\<lambda>r. symbol r \<noteq> s) (momentum_results yf p syms)"
proof (induction syms)
  case Nil
  then show ?case by simp
next
  case (Cons t syms)
  have step: "momentum_row_of p t (get_stock_data yf' t) =
                (if t = s then None else momentum_row_of p t (get_stock_data yf t))"
    unfolding yf' by (rule momentum_row_of_upd [OF assms(1)])
  have "symbol r = t" if "momentum_row_of p t (get_stock_data yf t) = Some r" for r
    using momentum_row_of_Some [OF that] by simp
  with Cons show ?case
    by (simp add: step split: option.split)
qed

lemma sma_results_failed:
  assumes "fetch_failed d" and yf': "yf' = yf(s := d)"
  shows "sma_results yf p syms = Inr rs \<Longrightarrow>
         sma_results yf' p syms = Inr (filter (\<lambda>r. symbol r \<noteq> s) rs)"
proof (induction syms arbitrary: rs)
  case Nil
  then show ?case by simp
next
  case (Cons t syms)
  have step: "sma_row_of p t (get_stock_data yf' t) =
                (if t = s then Inr None else sma_row_of p t (get_stock_data yf t))"
    unfolding yf' by (rule sma_row_of_upd [OF assms(1)])
  have sym: "symbol r = t" if "sma_row_of p t (get_stock_data yf t) = Inr (Some r)" for r
    using sma_row_of_symbol [OF that] .
  from Cons.prems obtain o' where o': "sma_row_of p t (get_stock_data yf t) = Inr o'"
    by (auto split: sum.splits)
  show ?case
  proof (cases o')
    case None
    with o' Cons show ?thesis
      by (simp add: step)
  next
    case (Some r)
    with o' Cons.prems obtain rs' where rs': "sma_results yf p syms = Inr rs'" "rs = r # rs'"
      by (auto split: sum.splits)
    from Cons.IH [OF rs'(1)] Some o' rs' sym [of r] show ?thesis
      by (simp add: step)
  qed
qed

lemma fst_calculate_momentum_data:
  "fst (calculate_momentum_data yf syms p) =
     sort_values_desc change_pct
       (filter (\<lambda>r. change_pct r \<noteq> NaN) (momentum_results yf p syms))"
  by (simp add: calculate_momentum_data_def Let_def sort_values_desc_def)

text \<open>
  C4. When the pull of one ticker fails, each table is the table without the row of
  that ticker: the rows collected by the loops of the trend detector, of the momentum
  routes and of the moving average are the same rows in the same order, less that row,
  and the sorted momentum table holds the same records, less that row.
\<close>

theorem failed_ticker_only_drops_its_row:
  assumes "fetch_failed d"
  shows "auto_trends_results (yf(s := d)) syms =
           filter (\<lambda>r. symbol r \<noteq> s) (auto_trends_results yf syms) \<and>
         momentum_results (yf(s := d)) p syms =
           filter (\<lambda>r. symbol r \<noteq> s) (momentum_results yf p syms) \<and>
         mset (fst (calculate_momentum_data (yf(s := d)) syms p)) =
           filter_mset (\<lambda>r. symbol r \<noteq> s) (mset (fst (calculate_momentum_data yf syms p))) \<and>
         (\<forall>rs. sma_results yf p syms = Inr rs \<longrightarrow>
               sma_results (yf(s := d)) p syms = Inr (filter (\<lambda>r. symbol r \<noteq> s) rs))"
proof (intro conjI allI impI)
  show "auto_trends_results (yf(s := d)) syms =
          filter (\<lambda>r. symbol r \<noteq> s) (auto_trends_results yf syms)"
    by (rule auto_trends_results_failed [OF assms refl])
next
  show "momentum_results (yf(s := d)) p syms =
          filter (\<lambda>r. symbol r \<noteq> s) (momentum_results yf p syms)"
    by (rule momentum_results_failed [OF assms refl])
next
  show "mset (fst (calculate_momentum_data (yf(s := d)) syms p)) =
          filter_mset (\<lambda>r. symbol r \<noteq> s) (mset (fst (calculate_momentum_data yf syms p)))"
    by (simp add: fst_calculate_momentum_data momentum_results_failed [OF assms refl]
          mset_sort_values_desc filter_filter_mset conj_commute)
next
  fix rs assume "sma_results yf p syms = Inr rs"
  then show "sma_results (yf(s := d)) p syms = Inr (filter (\<lambda>r. symbol r \<noteq> s) rs)"
    by (rule sma_results_failed [OF assms refl])
qed

lemmas eval_sma =
  eval_frame sma_row_of_def rolling_mean_def dropna_def py_div_def moving_average_stocks_def
  sort_values_desc_def

theorem failed_ticker_only_drops_its_row_witness:
  "fetch_failed Raises \<and>
   map symbol (auto_trends_results sample_market NIFTY_100) = [''TCS.NS'', ''INFY.NS'', ''LT.NS''] \<and>
   map symbol (auto_trends_results (sample_market(''TCS.NS'' := Raises)) NIFTY_100)
     = [''INFY.NS'', ''LT.NS''] \<and>
   map symbol (momentum_results pair_market 5 NIFTY_100) = [''TCS.NS'', ''LT.NS''] \<and>
   map symbol (momentum_results (pair_market(''TCS.NS'' := Raises)) 5 NIFTY_100) = [''LT.NS''] \<and>
   sma_results (sample_market(''TCS.NS'' := Raises)) 20 NIFTY_100 = Inr []"
proof -
  have f: "fetch_failed Raises" by (simp add: fetch_failed_def)
  have a: "map symbol (auto_trends_results sample_market NIFTY_100)
             = [''TCS.NS'', ''INFY.NS'', ''LT.NS'']"
    by (simp add: eval_trend sample_market_def)
  have m: "map symbol (momentum_results pair_market 5 NIFTY_100) = [''TCS.NS'', ''LT.NS'']"
    by (simp add: eval_momentum pair_market_def)
  have e: "sma_results sample_market 20 NIFTY_100 = Inr []"
    by (simp add: eval_sma sample_market_def)
  note t1 = failed_ticker_only_drops_its_row [OF f, of sample_market "''TCS.NS''" NIFTY_100 20]
  note t2 = failed_ticker_only_drops_its_row [OF f, of pair_market "''TCS.NS''" NIFTY_100 5]
  have "map symbol (auto_trends_results (sample_market(''TCS.NS'' := Raises)) NIFTY_100)
          = filter (\<lambda>x. x \<noteq> ''TCS.NS'') (map symbol (auto_trends_results sample_market NIFTY_100))"
    using t1 by (simp add: filter_map comp_def)
  moreover have "map symbol (momentum_results (pair_market(''TCS.NS'' := Raises)) 5 NIFTY_100)
          = filter (\<lambda>x. x \<noteq> ''TCS.NS'') (map symbol (momentum_results pair_market 5 NIFTY_100))"
    using t2 by (simp add: filter_map comp_def)
  moreover have "sma_results (sample_market(''TCS.NS'' := Raises)) 20 NIFTY_100 = Inr []"
    using t1 e by simp
  ultimately show ?thesis using f a m by simp
qed

section \<open>Properties of the moving average\<close>

lemma length_rolling_mean: "length (rolling_mean w cs) = length cs"
  by (simp add: rolling_mean_def)

lemma rolling_mean_nth:
  "i < length cs \<Longrightarrow>
   rolling_mean w cs ! i =
     (if i + 1 < w then NaN else Fin (sum_list (take w (drop (i + 1 - w) cs)) / real w))"
  by (simp add: rolling_mean_def)

lemma rolling_mean_short:
  assumes "length cs < w"
  shows "dropna (rolling_mean w cs) = []"
  using assms by (simp add: dropna_def rolling_mean_def filter_empty_conv)

lemma rolling_mean_last:
  assumes "w \<le> length cs" and "0 < w"
  shows "last (rolling_mean w cs) = Fin (sma_spec w cs)"
proof -
  have ne: "rolling_mean w cs \<noteq> []" using assms by (auto simp: rolling_mean_def)
  have i: "length cs - 1 < length cs" "\<not> length cs - 1 + 1 < w" using assms by simp_all
  have t: "take w (drop (length cs - 1 + 1 - w) cs) = tail w cs"
    using assms by (simp add: tail_def)
  have "last (rolling_mean w cs) = rolling_mean w cs ! (length cs - 1)"
    using last_conv_nth [OF ne] by (simp add: length_rolling_mean)
  then show ?thesis
    by (simp only: rolling_mean_nth [OF i(1)] i(2) if_False t sma_spec_def)
qed

lemma rolling_mean_dropna:
  assumes "w \<le> length cs" and "0 < w"
  shows "dropna (rolling_mean w cs) \<noteq> []"
proof -
  have "rolling_mean w cs \<noteq> []" using assms by (auto simp: rolling_mean_def)
  then have "last (rolling_mean w cs) \<in> set (rolling_mean w cs)" by (rule last_in_set)
  then show ?thesis
    by (auto simp: dropna_def filter_empty_conv rolling_mean_last [OF assms])
qed

text \<open>
  When the loop body of the moving average skips a ticker, and when it raises: with
  fewer closes than the window there is no average, and with an average of zero the
  scalar division raises.
\<close>

lemma sma_row_of_skips_iff:
  assumes "0 < w"
  shows "sma_row_of w s df = Inr None \<longleftrightarrow>
           df_empty df \<or> \<not> has_close df \<or> length (closes df) < w"
proof (cases "length (closes df) < w")
  case True
  then show ?thesis
    by (simp add: sma_row_of_def rolling_mean_short)
next
  case False
  then have w: "w \<le> length (closes df)" by simp
  show ?thesis
    using False
    by (simp add: sma_row_of_def Let_def rolling_mean_dropna [OF w assms]
          rolling_mean_last [OF w assms] py_div_def fsub_def)
qed

lemma sma_row_of_raises_iff:
  assumes "0 < w"
  shows "sma_row_of w s df = Inl ZeroDivisionError \<longleftrightarrow>
           \<not> df_empty df \<and> has_close df \<and> w \<le> length (closes df) \<and>
           sma_spec w (closes df) = 0"
proof (cases "length (closes df) < w")
  case True
  then show ?thesis
    by (simp add: sma_row_of_def rolling_mean_short)
next
  case False
  then have w: "w \<le> length (closes df)" by simp
  show ?thesis
    using False
    by (simp add: sma_row_of_def Let_def rolling_mean_dropna [OF w assms]
          rolling_mean_last [OF w assms] py_div_def fsub_def)
qed

lemma sma_results_rows:
  "sma_results yf w syms = Inr rs \<Longrightarrow> r \<in> set rs \<Longrightarrow>
   symbol r \<in> set syms \<and> sma_row_of w (symbol r) (get_stock_data yf (symbol r)) = Inr (Some r)"
proof (induction syms arbitrary: rs)
  case Nil
  then show ?case by simp
next
  case (Cons t syms)
  from Cons.prems(1) obtain o' where o': "sma_row_of w t (get_stock_data yf t) = Inr o'"
    by (auto split: sum.splits)
  show ?case
  proof (cases o')
    case None
    with o' Cons show ?thesis by auto
  next
    case (Some r0)
    with o' Cons.prems(1) obtain rs' where rs': "sma_results yf w syms = Inr rs'" "rs = r0 # rs'"
      by (auto split: sum.splits)
    from sma_row_of_symbol o' Some have "symbol r0 = t" by blast
    with Cons.IH [OF rs'(1)] Cons.prems(2) rs'(2) o' Some show ?thesis by auto
  qed
qed

text \<open>
  C6. In a market where one ticker has 20 closes of mean zero and the others have 21
  closes whose last 20 have mean 11.5, the scalar division of the loop body raises
  \<open>ZeroDivisionError\<close> for the ticker of mean zero, and \<open>/api/moving_average\<close> raises
  with it: no \<open>last_sma\<close> and no \<open>deviation_pct\<close> is reported for any ticker.
\<close>

theorem zero_mean_ticker_aborts_moving_average:
  "valid_data (get_stock_data zero_market ''TCS.NS'') \<and>
   closes (get_stock_data zero_market ''TCS.NS'') = long_closes \<and>
   length long_closes = 21 \<and> sma_spec 20 long_closes = 23 / 2 \<and>
   closes (get_stock_data zero_market ''LT.NS'') = zero_closes \<and>
   length zero_closes = 20 \<and> sma_spec 20 zero_closes = 0 \<and>
   sma_row_of 20 ''LT.NS'' (get_stock_data zero_market ''LT.NS'') = Inl ZeroDivisionError \<and>
   moving_average_stocks zero_market = Inl ZeroDivisionError"
proof -
  have "closes (get_stock_data zero_market ''TCS.NS'') = long_closes"
    "closes (get_stock_data zero_market ''LT.NS'') = zero_closes"
    by (simp_all add: get_stock_data_def zero_market_def df_empty_def rows_sample_frame_Nil
          closes_sample_frame long_closes_def zero_closes_def)
  moreover have "valid_data (get_stock_data zero_market ''TCS.NS'')"
    by (simp add: valid_data_def get_stock_data_def zero_market_def df_empty_def
          rows_sample_frame_Nil has_close_sample_frame long_closes_def)
  moreover have "length long_closes = 21" "length zero_closes = 20"
    "sma_spec 20 long_closes = 23 / 2" "sma_spec 20 zero_closes = 0"
    by (simp_all add: long_closes_def zero_closes_def sma_spec_def tail_def)
  moreover have "sma_row_of 20 ''LT.NS'' (get_stock_data zero_market ''LT.NS'') = Inl ZeroDivisionError"
    "moving_average_stocks zero_market = Inl ZeroDivisionError"
    by (simp_all add: eval_sma zero_market_def zero_closes_def long_closes_def)
  ultimately show ?thesis by simp
qed

section \<open>Properties of the responses\<close>

lemma auto_trends_results_Nil_iff:
  "auto_trends_results yf syms = [] \<longleftrightarrow>
     (\<forall>s\<in>set syms. auto_trends_row s (get_stock_data yf s) = None)"
  by (induction syms) (auto split: option.splits)

lemma momentum_results_Nil_iff:
  "momentum_results yf p syms = [] \<longleftrightarrow>
     (\<forall>s\<in>set syms. momentum_row_of p s (get_stock_data yf s) = None)"
  by (induction syms) (auto split: option.splits)

lemma sma_results_Nil_iff:
  "sma_results yf w syms = Inr rs \<Longrightarrow>
     rs = [] \<longleftrightarrow> (\<forall>s\<in>set syms. sma_row_of w s (get_stock_data yf s) = Inr None)"
  by (induction syms arbitrary: rs) (auto split: option.splits sum.splits)

lemma sma_results_all_skipped:
  "\<forall>s\<in>set syms. sma_row_of w s (get_stock_data yf s) = Inr None \<Longrightarrow>
   sma_results yf w syms = Inr []"
  by (induction syms) auto

lemma auto_trends_cases:
  "auto_trends yf =
     (if \<forall>s\<in>set NIFTY_100. auto_trends_row s (get_stock_data yf s) = None
      then (ErrorObj ''No trend data found'', 400)
      else (Payload (auto_trends_results yf NIFTY_100), 200))"
  by (simp add: auto_trends_def Let_def auto_trends_results_Nil_iff)

lemma sma_results_total:
  "\<forall>s\<in>set syms. sma_row_of w s (get_stock_data yf s) \<noteq> Inl ZeroDivisionError \<Longrightarrow>
   \<exists>rws. sma_results yf w syms = Inr rws"
proof (induction syms)
  case Nil
  then show ?case by simp
next
  case (Cons t syms)
  then obtain rws where rws: "sma_results yf w syms = Inr rws" by auto
  from Cons.prems have "sma_row_of w t (get_stock_data yf t) \<noteq> Inl ZeroDivisionError" by simp
  then obtain o' where "sma_row_of w t (get_stock_data yf t) = Inr o'"
    by (cases "sma_row_of w t (get_stock_data yf t)") (auto intro: py_error.exhaust)
  with rws show ?case by (cases o') simp_all
qed

lemma sma_results_symbols:
  "sma_results yf w syms = Inr rws \<Longrightarrow>
   map symbol rws = filter (\<lambda>s. sma_row_of w s (get_stock_data yf s) \<noteq> Inr None) syms"
proof (induction syms arbitrary: rws)
  case Nil
  then show ?case by simp
next
  case (Cons t syms)
  from Cons.prems obtain o' where o': "sma_row_of w t (get_stock_data yf t) = Inr o'"
    by (auto split: sum.splits)
  show ?case
  proof (cases o')
    case None
    with o' Cons show ?thesis by simp
  next
    case (Some r0)
    with o' Cons.prems obtain rws' where rws': "sma_results yf w syms = Inr rws'" "rws = r0 # rws'"
      by (auto split: sum.splits)
    from sma_row_of_symbol o' Some have "symbol r0 = t" by blast
    with Cons.IH [OF rws'(1)] rws'(2) o' Some show ?thesis by simp
  qed
qed

lemma auto_trends_results_rows:
  "r \<in> set (auto_trends_results yf syms) \<Longrightarrow>
   auto_trends_row (symbol r) (get_stock_data yf (symbol r)) = Some r"
  by (induction syms) (auto split: option.splits dest: auto_trends_row_fields)

lemma moving_average_stocks_total:
  assumes "\<forall>s\<in>set NIFTY_100. sma_row_of 20 s (get_stock_data yf s) \<noteq> Inl ZeroDivisionError"
  shows "if \<forall>s\<in>set NIFTY_100. sma_row_of 20 s (get_stock_data yf s) = Inr None
         then moving_average_stocks yf =
                Inr (ErrorObj ''No valid Moving Average data found'', 400)
         else \<exists>rs. moving_average_stocks yf = Inr (Payload rs, 200) \<and> rs \<noteq> [] \<and>
                mset (map symbol rs) =
                  mset (filter (\<lambda>s. sma_row_of 20 s (get_stock_data yf s) \<noteq> Inr None) NIFTY_100) \<and>
                (\<forall>r\<in>set rs. sma_row_of 20 (symbol r) (get_stock_data yf (symbol r)) = Inr (Some r))"
proof -
  from sma_results_total [OF assms] obtain rws
    where rws: "sma_results yf 20 NIFTY_100 = Inr rws" by blast
  let ?rs = "sort_values_desc deviation_pct rws"
  have m: "mset ?rs = mset rws" by (rule mset_sort_values_desc)
  have set: "set ?rs = set rws" using m by (metis set_mset_mset)
  have sym: "mset (map symbol ?rs) =
      mset (filter (\<lambda>s. sma_row_of 20 s (get_stock_data yf s) \<noteq> Inr None) NIFTY_100)"
    using m sma_results_symbols [OF rws] by (metis mset_map)
  have tie: "\<forall>r\<in>set ?rs. sma_row_of 20 (symbol r) (get_stock_data yf (symbol r)) = Inr (Some r)"
    using sma_results_rows [OF rws] set by blast
  show ?thesis
  proof (cases "\<forall>s\<in>set NIFTY_100. sma_row_of 20 s (get_stock_data yf s) = Inr None")
    case True
    with sma_results_Nil_iff [OF rws] rws show ?thesis
      by (simp add: moving_average_stocks_def)
  next
    case False
    with sma_results_Nil_iff [OF rws] have ne: "rws \<noteq> []" by blast
    then have "moving_average_stocks yf = Inr (Payload ?rs, 200)" "?rs \<noteq> []"
      using rws by (simp_all add: moving_average_stocks_def sort_values_desc_eq_Nil)
    with False sym tie show ?thesis by auto
  qed
qed

lemma auto_trends_total:
  "if \<forall>s\<in>set NIFTY_100. auto_trends_row s (get_stock_data yf s) = None
   then auto_trends yf = (ErrorObj ''No trend data found'', 400)
   else \<exists>rs. auto_trends yf = (Payload rs, 200) \<and> rs \<noteq> [] \<and>
          map symbol rs =
            filter (\<lambda>s. auto_trends_row s (get_stock_data yf s) \<noteq> None) NIFTY_100 \<and>
          (\<forall>r\<in>set rs. auto_trends_row (symbol r) (get_stock_data yf (symbol r)) = Some r)"
  using auto_trends_results_rows [of _ yf NIFTY_100]
  by (auto simp: auto_trends_cases auto_trends_results_Nil_iff auto_trends_results_symbols)

lemma momentum_endpoints_total:
  "if filter (valid_momentum yf 5) NIFTY_100 = []
   then \<exists>e. momentum_stocks yf = (ErrorObj e, 400) \<and> high_low_performers yf = (ErrorObj e, 400)
   else \<exists>T p. momentum_stocks yf = (Payload T, 200) \<and>
          high_low_performers yf = (Payload p, 200) \<and>
          high p = take (N p) T \<and> low p = tail (N p) T \<and> T \<noteq> [] \<and>
          mset (map symbol T) = mset (filter (valid_momentum yf 5) NIFTY_100) \<and>
          (\<forall>r\<in>set T. momentum_row_of 5 (symbol r) (get_stock_data yf (symbol r)) = Some r)"
proof (cases "filter (valid_momentum yf 5) NIFTY_100 = []")
  case True
  then show ?thesis
    by (simp add: momentum_stocks_def high_low_performers_def calculate_momentum_data_cases)
next
  case False
  from momentum_table [OF False] obtain T
    where T: "calculate_momentum_data yf NIFTY_100 5 = (T, None)"
      and s: "mset (map symbol T) = mset (filter (valid_momentum yf 5) NIFTY_100)"
      and l: "length T = length (filter (valid_momentum yf 5) NIFTY_100)"
      and r: "\<forall>r\<in>set T. momentum_row_of 5 (symbol r) (get_stock_data yf (symbol r)) = Some r"
    by blast
  from l False have ne: "T \<noteq> []" by auto
  define n where "n = (if length T < 3 then length T div 2 else 3)"
  define p where "p = \<lparr>high = take n T, low = tail n T, period = ''5-Day (1 Week)'', N = n\<rparr>"
  have "momentum_stocks yf = (Payload T, 200)"
    using T by (simp add: momentum_stocks_def)
  moreover have "high_low_performers yf = (Payload p, 200)"
    using T by (simp add: high_low_performers_def Let_def p_def n_def)
  moreover have "high p = take (N p) T" "low p = tail (N p) T" by (simp_all add: p_def)
  ultimately show ?thesis using False ne s r by auto
qed

text \<open>
  C3, as amended. An endpoint answers 400 with an error object when it has no row to
  report, and otherwise 200 with the rows computed for the tickers. It has no row when no
  ticker yields valid data; \<open>/api/auto_trends\<close> also has none when no ticker shows a
  streak of 3, the momentum routes when no ticker has a numeric 5-day change, and
  \<open>/api/moving_average\<close> when every ticker is skipped. For \<open>/api/moving_average\<close> this
  is stated for the requests in which the loop body raises for no ticker.
\<close>

theorem endpoints_400_iff_no_rows:
  "((\<forall>s\<in>set NIFTY_100. \<not> valid_data (get_stock_data yf s)) \<longrightarrow>
      auto_trends yf = (ErrorObj ''No trend data found'', 400) \<and>
      momentum_stocks yf = (ErrorObj ''No valid momentum data found'', 400) \<and>
      high_low_performers yf = (ErrorObj ''No valid momentum data found'', 400) \<and>
      moving_average_stocks yf = Inr (ErrorObj ''No valid Moving Average data found'', 400)) \<and>
   (if \<forall>s\<in>set NIFTY_100. auto_trends_row s (get_stock_data yf s) = None
    then auto_trends yf = (ErrorObj ''No trend data found'', 400)
    else \<exists>rs. auto_trends yf = (Payload rs, 200) \<and> rs \<noteq> [] \<and>
           map symbol rs =
             filter (\<lambda>s. auto_trends_row s (get_stock_data yf s) \<noteq> None) NIFTY_100 \<and>
           (\<forall>r\<in>set rs. auto_trends_row (symbol r) (get_stock_data yf (symbol r)) = Some r)) \<and>
   (if filter (valid_momentum yf 5) NIFTY_100 = []
    then \<exists>e. momentum_stocks yf = (ErrorObj e, 400) \<and> high_low_performers yf = (ErrorObj e, 400)
    else \<exists>T p. momentum_stocks yf = (Payload T, 200) \<and>
           high_low_performers yf = (Payload p, 200) \<and>
           high p = take (N p) T \<and> low p = tail (N p) T \<and> T \<noteq> [] \<and>
           mset (map symbol T) = mset (filter (valid_momentum yf 5) NIFTY_100) \<and>
           (\<forall>r\<in>set T. momentum_row_of 5 (symbol r) (get_stock_data yf (symbol r)) = Some r)) \<and>
   ((\<forall>s\<in>set NIFTY_100. sma_row_of 20 s (get_stock_data yf s) \<noteq> Inl ZeroDivisionError) \<longrightarrow>
      (if \<forall>s\<in>set NIFTY_100. sma_row_of 20 s (get_stock_data yf s) = Inr None
       then moving_average_stocks yf =
              Inr (ErrorObj ''No valid Moving Average data found'', 400)
       else \<exists>rs. moving_average_stocks yf = Inr (Payload rs, 200) \<and> rs \<noteq> [] \<and>
              mset (map symbol rs) =
                mset (filter (\<lambda>s. sma_row_of 20 s (get_stock_data yf s) \<noteq> Inr None) NIFTY_100) \<and>
              (\<forall>r\<in>set rs. sma_row_of 20 (symbol r) (get_stock_data yf (symbol r)) = Inr (Some r))))"
proof (intro conjI impI)
  assume inv: "\<forall>s\<in>set NIFTY_100. \<not> valid_data (get_stock_data yf s)"
  then have f: "df_empty (get_stock_data yf s) \<or> \<not> has_close (get_stock_data yf s)"
    if "s \<in> set NIFTY_100" for s
    using that by (simp add: valid_data_def)
  have a: "\<forall>s\<in>set NIFTY_100. auto_trends_row s (get_stock_data yf s) = None"
    using failed_rows(1) [OF f] by blast
  have m: "momentum_results yf 5 NIFTY_100 = []"
    unfolding momentum_results_Nil_iff using failed_rows(2) [OF f] by blast
  have s: "sma_results yf 20 NIFTY_100 = Inr []"
    by (rule sma_results_all_skipped) (use failed_rows(3) [OF f] in blast)
  show "auto_trends yf = (ErrorObj ''No trend data found'', 400)"
    using a by (simp add: auto_trends_cases)
  show "momentum_stocks yf = (ErrorObj ''No valid momentum data found'', 400)"
    using m by (simp add: momentum_stocks_def calculate_momentum_data_def)
  show "high_low_performers yf = (ErrorObj ''No valid momentum data found'', 400)"
    using m by (simp add: high_low_performers_def calculate_momentum_data_def)
  show "moving_average_stocks yf = Inr (ErrorObj ''No valid Moving Average data found'', 400)"
    using s by (simp add: moving_average_stocks_def)
next
  show "if \<forall>s\<in>set NIFTY_100. auto_trends_row s (get_stock_data yf s) = None
    then auto_trends yf = (ErrorObj ''No trend data found'', 400)
    else \<exists>rs. auto_trends yf = (Payload rs, 200) \<and> rs \<noteq> [] \<and>
           map symbol rs =
             filter (\<lambda>s. auto_trends_row s (get_stock_data yf s) \<noteq> None) NIFTY_100 \<and>
           (\<forall>r\<in>set rs. auto_trends_row (symbol r) (get_stock_data yf (symbol r)) = Some r)"
    by (rule auto_trends_total)
next
  show "if filter (valid_momentum yf 5) NIFTY_100 = []
    then \<exists>e. momentum_stocks yf = (ErrorObj e, 400) \<and> high_low_performers yf = (ErrorObj e, 400)
    else \<exists>T p. momentum_stocks yf = (Payload T, 200) \<and>
           high_low_performers yf = (Payload p, 200) \<and>
           high p = take (N p) T \<and> low p = tail (N p) T \<and> T \<noteq> [] \<and>
           mset (map symbol T) = mset (filter (valid_momentum yf 5) NIFTY_100) \<and>
           (\<forall>r\<in>set T. momentum_row_of 5 (symbol r) (get_stock_data yf (symbol r)) = Some r)"
    by (rule momentum_endpoints_total)
next
  assume "\<forall>s\<in>set NIFTY_100. sma_row_of 20 s (get_stock_data yf s) \<noteq> Inl ZeroDivisionError"
  then show "if \<forall>s\<in>set NIFTY_100. sma_row_of 20 s (get_stock_data yf s) = Inr None
       then moving_average_stocks yf =
              Inr (ErrorObj ''No valid Moving Average data found'', 400)
       else \<exists>rs. moving_average_stocks yf = Inr (Payload rs, 200) \<and> rs \<noteq> [] \<and>
              mset (map symbol rs) =
                mset (filter (\<lambda>s. sma_row_of 20 s (get_stock_data yf s) \<noteq> Inr None) NIFTY_100) \<and>
              (\<forall>r\<in>set rs. sma_row_of 20 (symbol r) (get_stock_data yf (symbol r)) = Inr (Some r))"
    by (rule moving_average_stocks_total)
qed

text \<open>
  C3 as stated fails on \<open>/api/auto_trends\<close>: in a market where every ticker yields
  valid data and none has three consecutive moves in one direction, the answer is 400.
\<close>

theorem valid_data_without_streak_counterexample:
  "valid_data (get_stock_data flat_market ''TCS.NS'') \<and>
   valid_data (get_stock_data flat_market ''LT.NS'') \<and>
   auto_trends flat_market = (ErrorObj ''No trend data found'', 400)"
  by (simp add: eval_trend valid_data_def flat_market_def)

theorem endpoints_400_iff_no_rows_witness:
  "auto_trends dead_market = (ErrorObj ''No trend data found'', 400) \<and>
   momentum_stocks dead_market = (ErrorObj ''No valid momentum data found'', 400) \<and>
   high_low_performers dead_market = (ErrorObj ''No valid momentum data found'', 400) \<and>
   moving_average_stocks dead_market = Inr (ErrorObj ''No valid Moving Average data found'', 400) \<and>
   (\<exists>rs. auto_trends sample_market = (Payload rs, 200) \<and>
         map symbol rs = [''TCS.NS'', ''INFY.NS'', ''LT.NS'']) \<and>
   (\<exists>T p. momentum_stocks sample_market = (Payload T, 200) \<and>
          high_low_performers sample_market = (Payload p, 200) \<and> length T = 7) \<and>
   (\<exists>rs. moving_average_stocks sma_market = Inr (Payload rs, 200) \<and> map symbol rs = [''TCS.NS'']) \<and>
   moving_average_stocks sample_market = Inr (ErrorObj ''No valid Moving Average data found'', 400)"
proof -
  have d: "\<forall>s\<in>set NIFTY_100. \<not> valid_data (get_stock_data dead_market s)"
    by (simp add: valid_data_def get_stock_data_def dead_market_def empty_frame_def)
  have a: "\<not> (\<forall>s\<in>set NIFTY_100. auto_trends_row s (get_stock_data sample_market s) = None)"
    "filter (\<lambda>s. auto_trends_row s (get_stock_data sample_market s) \<noteq> None) NIFTY_100
       = [''TCS.NS'', ''INFY.NS'', ''LT.NS'']"
    by (simp_all add: eval_trend sample_market_def)
  have m: "filter (valid_momentum sample_market 5) NIFTY_100 \<noteq> []"
    "length (filter (valid_momentum sample_market 5) NIFTY_100) = 7"
    by (simp_all add: eval_momentum sample_market_def)
  have s: "\<forall>s\<in>set NIFTY_100. sma_row_of 20 s (get_stock_data sma_market s) \<noteq> Inl ZeroDivisionError"
    "\<not> (\<forall>s\<in>set NIFTY_100. sma_row_of 20 s (get_stock_data sma_market s) = Inr None)"
    "filter (\<lambda>s. sma_row_of 20 s (get_stock_data sma_market s) \<noteq> Inr None) NIFTY_100 = [''TCS.NS'']"
    by (simp_all add: eval_sma sma_market_def long_closes_def)
  have q: "\<forall>s\<in>set NIFTY_100. sma_row_of 20 s (get_stock_data sample_market s) \<noteq> Inl ZeroDivisionError"
    "\<forall>s\<in>set NIFTY_100. sma_row_of 20 s (get_stock_data sample_market s) = Inr None"
    by (simp_all add: eval_sma sample_market_def)
  note inv = endpoints_400_iff_no_rows [THEN conjunct1, THEN mp]
  note aut = endpoints_400_iff_no_rows [THEN conjunct2, THEN conjunct1]
  note mom = endpoints_400_iff_no_rows [THEN conjunct2, THEN conjunct2, THEN conjunct1]
  note sma = endpoints_400_iff_no_rows [THEN conjunct2, THEN conjunct2, THEN conjunct2, THEN mp]
  from inv [OF d] have c1: "auto_trends dead_market = (ErrorObj ''No trend data found'', 400)"
    "momentum_stocks dead_market = (ErrorObj ''No valid momentum data found'', 400)"
    "high_low_performers dead_market = (ErrorObj ''No valid momentum data found'', 400)"
    "moving_average_stocks dead_market = Inr (ErrorObj ''No valid Moving Average data found'', 400)"
    by simp_all
  from aut [of sample_market, unfolded a(2)] a(1)
  have c2: "\<exists>rs. auto_trends sample_market = (Payload rs, 200) \<and>
         map symbol rs = [''TCS.NS'', ''INFY.NS'', ''LT.NS'']"
    by (simp only: if_False) (elim exE conjE, rule exI, rule conjI, assumption+)
  from mom [of sample_market] m(1) obtain T p where T: "momentum_stocks sample_market = (Payload T, 200)"
      "high_low_performers sample_market = (Payload p, 200)"
      "mset (map symbol T) = mset (filter (valid_momentum sample_market 5) NIFTY_100)"
    by (simp only: if_False) (elim exE conjE, rule that, assumption+)
  from T(3) m(2) have "length T = 7" by (metis length_map size_mset)
  with T have c3: "\<exists>T p. momentum_stocks sample_market = (Payload T, 200) \<and>
          high_low_performers sample_market = (Payload p, 200) \<and> length T = 7"
    by - (rule exI, rule exI, intro conjI, assumption+)
  from sma [OF s(1), unfolded s(3)] s(2)
  obtain rs where rs: "moving_average_stocks sma_market = Inr (Payload rs, 200)"
      "mset (map symbol rs) = mset [''TCS.NS'']"
    by (simp only: if_False) (elim exE conjE, rule that, assumption+)
  from rs(2) have "map symbol rs = [''TCS.NS'']"
    by (metis mset_single_iff_right mset.simps(1) mset.simps(2))
  with rs(1) have c4: "\<exists>rs. moving_average_stocks sma_market = Inr (Payload rs, 200) \<and>
      map symbol rs = [''TCS.NS'']"
    by - (rule exI, rule conjI, assumption+)
  from sma [OF q(1)] q(2) have c5: "moving_average_stocks sample_market =
      Inr (ErrorObj ''No valid Moving Average data found'', 400)"
    by (simp only: if_True)
  from c1 c2 c3 c4 c5 show ?thesis
    by - (intro conjI, assumption+)
qed

section \<open>The direction of a day for positive prices\<close>

text \<open>
  After a positive close, the sign of the percentage change is the direction in which the
  close moved: a negative change is a decline of the close, a positive one a rise.
\<close>

lemma direction_positive_closes:
  assumes "0 < a"
  shows "direction (fsub (fdiv (Fin b) (Fin a)) (Fin 1)) =
           (if b < a then Some Fall else if a < b then Some Rise else None)"
  using assms by (simp add: direction_def fsub_def fgt_def divide_less_eq less_divide_eq)

lemma daily_directions_nth:
  assumes "i + 1 < length cs" and "0 < cs ! i"
  shows "daily_directions cs ! i =
           (if cs ! (i + 1) < cs ! i then Some Fall
            else if cs ! i < cs ! (i + 1) then Some Rise else None)"
proof -
  have "daily_directions cs ! i = direction (pct_change 1 cs ! (i + 1))"
    using assms(1) by (simp add: daily_directions_def length_pct_change)
  also have "\<dots> = direction (fsub (fdiv (Fin (cs ! (i + 1))) (Fin (cs ! i))) (Fin 1))"
    using assms(1) by (simp only: pct_change_nth) simp
  finally show ?thesis
    by (simp only: direction_positive_closes [OF assms(2)])
qed

end
